theory Spec2Isabelle
  imports Complex_Main "HOL-Library.Multiset"
begin

section \<open>Payout entries\<close>

text \<open>
  Modelled from the spec: the declaration of \<open>PayoutEntry\<close> lives in \<open>types.ts\<close>, which is
  not among the source files. The spec gives \<open>{ position: integer, prize: decimal number }\<close>;
  both fields are JavaScript numbers. A \<open>position\<close> is kept as the integer it denotes and
  a \<open>prize\<close> as the exact rational value of the finite double that holds it.
\<close>

record PayoutEntry =
  position :: int
  prize :: rat

section \<open>The sort step of \<open>handleGenerateJson\<close> (App.tsx, line 118)\<close>

text \<open>
  \<open>extractedPayouts.sort((a, b) => a.position - b.position)\<close>.
  The comparator is \<open>compareFn\<close>. \<open>Array.prototype.sort\<close> is a stable sort: an element
  \<open>x\<close> goes before \<open>y\<close> when the comparator is negative, and elements that compare
  equal keep their input order. \<open>Array_sort\<close> is the stable insertion sort driven by the
  sign of the comparator; \<open>insert_sorted\<close> puts an element in front of the first element it
  does not compare greater than, so an element that came earlier in the input stays in
  front of its equals.
\<close>

definition compareFn :: "PayoutEntry \<Rightarrow> PayoutEntry \<Rightarrow> int" where
  "compareFn a b = position a - position b"

fun insert_sorted :: "('a \<Rightarrow> 'a \<Rightarrow> int) \<Rightarrow> 'a \<Rightarrow> 'a list \<Rightarrow> 'a list" where
  "insert_sorted cmp x [] = [x]"
| "insert_sorted cmp x (y # ys) =
     (if cmp x y \<le> 0 then x # y # ys else y # insert_sorted cmp x ys)"

definition Array_sort :: "('a \<Rightarrow> 'a \<Rightarrow> int) \<Rightarrow> 'a list \<Rightarrow> 'a list" where
  "Array_sort cmp xs = foldr (insert_sorted cmp) xs []"

definition normalize_payouts :: "PayoutEntry list \<Rightarrow> PayoutEntry list" where
  "normalize_payouts es = Array_sort compareFn es"

section \<open>Rendering numbers as text\<close>

text \<open>
  The export step calls two library routines of the language on every entry:
  \<open>String(p.position)\<close> and \<open>p.prize.toFixed(2)\<close> (App.tsx, lines 122 and 123). Both are
  defined by ECMA-262 on the exact mathematical value of the number, so they are modelled
  on integers and rationals, step by step after the standard.
\<close>

definition digit_char :: "nat \<Rightarrow> char" where
  "digit_char d = char_of (48 + d)"

text \<open>The digits of the decimal representation of \<open>n\<close>, in order, with no leading zeroes.\<close>

fun decimal_digits :: "nat \<Rightarrow> string" where
  "decimal_digits n =
     (if n < 10 then [digit_char n] else decimal_digits (n div 10) @ [digit_char (n mod 10)])"

declare decimal_digits.simps [simp del]

fun bit_length :: "nat \<Rightarrow> nat" where
  "bit_length n = (if n = 0 then 0 else Suc (bit_length (n div 2)))"

declare bit_length.simps [simp del]

text \<open>
  The Number value for a non-negative integer below \<open>2 ^ 1024\<close>: the nearest double, ties
  to the even significand. Integers below \<open>2 ^ 53\<close> are doubles themselves; a larger one
  keeps its 53 leading bits.
\<close>

definition round_to_double :: "nat \<Rightarrow> nat" where
  "round_to_double v =
     (if v < 2 ^ 53 then v
      else let e = bit_length v - 53; q = v div 2 ^ e; r = v mod 2 ^ e
           in (if 2 ^ e < 2 * r \<or> (2 * r = 2 ^ e \<and> odd q) then q + 1 else q) * 2 ^ e)"

text \<open>
  \<open>Number::toString\<close> (ECMA-262, 6.1.6.1.20) for a positive integer \<open>x\<close>: integers
  \<open>n\<close>, \<open>k\<close>, \<open>s\<close> with \<open>k \<ge> 1\<close>, \<open>10 ^ (k - 1) \<le> s < 10 ^ k\<close>, such that
  \<open>s * 10 ^ (n - k)\<close> rounds to \<open>x\<close>, and \<open>k\<close> as small as possible; among several
  \<open>s\<close> the one whose value is closest to \<open>x\<close>. \<open>digit_candidates x k\<close> lists the pairs
  \<open>(s, n)\<close> for one \<open>k\<close>: the value has as many digits as \<open>x\<close> or one more, and \<open>s\<close> is
  next to \<open>x / 10 ^ (n - k)\<close>.
\<close>

definition digit_candidates :: "nat \<Rightarrow> nat \<Rightarrow> (nat \<times> nat) list" where
  "digit_candidates x k =
     (let nd = length (decimal_digits x) in
      concat (map (\<lambda>n.
        map (\<lambda>s. (s, n))
          (filter (\<lambda>s. 10 ^ (k - 1) \<le> s \<and> s < 10 ^ k \<and> round_to_double (s * 10 ^ (n - k)) = x)
             [x div 10 ^ (n - k), x div 10 ^ (n - k) + 1]))
        (filter (\<lambda>n. k \<le> n) [nd, nd + 1])))"

definition distance :: "nat \<Rightarrow> nat \<Rightarrow> nat" where
  "distance a b = (if a \<le> b then b - a else a - b)"

fun closest :: "nat \<Rightarrow> nat \<Rightarrow> (nat \<times> nat) \<Rightarrow> (nat \<times> nat) list \<Rightarrow> (nat \<times> nat)" where
  "closest x k best [] = best"
| "closest x k best (c # cs) =
     (let db = distance (fst best * 10 ^ (snd best - k)) x;
          dc = distance (fst c * 10 ^ (snd c - k)) x
      in closest x k (if dc < db \<or> (dc = db \<and> even (fst c) \<and> odd (fst best)) then c else best) cs)"

text \<open>
  The search for the smallest \<open>k\<close> runs upwards from \<open>k\<close>. For a double \<open>x\<close> it ends at
  the latest when \<open>k\<close> is the number of digits of \<open>x\<close>, where \<open>s = x\<close> fits; the result
  is \<open>(s, n, k)\<close>.
\<close>

fun shortest_digits :: "nat \<Rightarrow> nat \<Rightarrow> nat \<Rightarrow> nat \<times> nat \<times> nat" where
  "shortest_digits 0 x k = (x, length (decimal_digits x), length (decimal_digits x))"
| "shortest_digits (Suc fuel) x k =
     (case digit_candidates x k of
        [] \<Rightarrow> shortest_digits fuel x (Suc k)
      | c # cs \<Rightarrow> (case closest x k c cs of (s, n) \<Rightarrow> (s, n, k)))"

definition Number_toString_positive :: "nat \<Rightarrow> string" where
  "Number_toString_positive x =
     (case shortest_digits (length (decimal_digits x)) x 1 of
        (s, n, k) \<Rightarrow>
          if n \<le> 21 then decimal_digits s @ replicate (n - k) (CHR ''0'')
          else if k = 1 then decimal_digits s @ ''e+'' @ decimal_digits (n - 1)
          else take 1 (decimal_digits s) @ ''.'' @ drop 1 (decimal_digits s)
                 @ ''e+'' @ decimal_digits (n - 1))"

text \<open>\<open>String(x)\<close> for an integral Number \<open>x\<close>.\<close>

definition Number_toString :: "int \<Rightarrow> string" where
  "Number_toString x =
     (if x = 0 then ''0''
      else if x < 0 then ''-'' @ Number_toString_positive (nat (- x))
      else Number_toString_positive (nat x))"

text \<open>
  \<open>Number.prototype.toFixed(f)\<close> (ECMA-262, 21.1.3.3) on a finite Number \<open>x\<close>, for
  \<open>f\<close> from 0 to 100 (the call site passes 2, so the RangeError for other \<open>f\<close> cannot
  arise). The sign is split off; from \<open>10 ^ 21\<close> on the result is \<open>String(x)\<close> (a double that
  large is an integer); below, \<open>n\<close> is the integer for which \<open>n / 10 ^ f - x\<close> is as close
  to zero as possible, the larger one if there are two, and its digits are padded with
  zeroes to \<open>f + 1\<close> places and split \<open>f\<close> places from the right.
\<close>

definition toFixed :: "rat \<Rightarrow> nat \<Rightarrow> string" where
  "toFixed x0 f =
     (let s = (if x0 < 0 then ''-'' else []);
          x = \<bar>x0\<bar>
      in if 10 ^ 21 \<le> x then s @ Number_toString \<lfloor>x\<rfloor>
         else
           let n = nat \<lfloor>x * 10 ^ f + 1 / 2\<rfloor>;
               m = (if n = 0 then ''0'' else decimal_digits n);
               m = (if f \<noteq> 0 then
                      (let m = (if length m \<le> f
                                then replicate (f + 1 - length m) (CHR ''0'') @ m else m);
                           k = length m
                       in take (k - f) m @ ''.'' @ drop (k - f) m)
                    else m)
           in s @ m)"

section \<open>The export document (App.tsx, lines 121 to 136)\<close>

text \<open>
  The document is built from object literals, arrays and strings only. An object keeps its
  keys in the order the literal writes them (none of the keys is an array index), so it is
  a list of key and value pairs.
\<close>

datatype json = JString string | JArray "json list" | JObject "(string \<times> json) list"

definition tournamentEntry :: "PayoutEntry \<Rightarrow> json" where
  "tournamentEntry p =
     JObject [(''@position'', JString (Number_toString (position p))),
              (''@prize'', JString (toFixed (prize p) 2))]"

definition hrcJsonData :: "PayoutEntry list \<Rightarrow> json" where
  "hrcJsonData extractedPayouts =
     JObject [(''CompletedTournament'',
       JObject [(''@name'', JString ''Custom Tournament Payouts''),
                (''@stake'', JString ''0''),
                (''@rake'', JString ''0''),
                (''@currency'', JString ''USD''),
                (''TournamentEntry'', JArray (map tournamentEntry extractedPayouts))])]"

text \<open>Reading a property of an object: the value of the first pair with that key.\<close>

fun json_get :: "string \<Rightarrow> json \<Rightarrow> json option" where
  "json_get k (JObject kvs) = map_of kvs k"
| "json_get k (JString s) = None"
| "json_get k (JArray vs) = None"

subsection \<open>\<open>JSON.stringify(value, null, space)\<close>\<close>

text \<open>
  ECMA-262, 25.5.2. \<open>QuoteJSONString\<close> wraps a string in double quotes and escapes the
  double quote, the backslash and the control characters below \<open>0x20\<close>: backspace, tab,
  line feed, form feed and carriage return by their short forms, every other one as
  \<open>\u\<close> and four lowercase hexadecimal digits.
\<close>

definition dquote :: char where
  "dquote = CHR 0x22"

definition backslash :: char where
  "backslash = CHR 0x5C"

definition newline :: char where
  "newline = CHR 0x0A"

definition hex_char :: "nat \<Rightarrow> char" where
  "hex_char d = (if d < 10 then char_of (48 + d) else char_of (87 + d))"

definition UnicodeEscape :: "char \<Rightarrow> string" where
  "UnicodeEscape c =
     (let n = (of_char c :: nat)
      in [backslash, CHR ''u'', hex_char (n div 4096 mod 16), hex_char (n div 256 mod 16),
          hex_char (n div 16 mod 16), hex_char (n mod 16)])"

definition escape_char :: "char \<Rightarrow> string" where
  "escape_char c =
     (if c = CHR 0x08 then [backslash, CHR ''b'']
      else if c = CHR 0x09 then [backslash, CHR ''t'']
      else if c = CHR 0x0A then [backslash, CHR ''n'']
      else if c = CHR 0x0C then [backslash, CHR ''f'']
      else if c = CHR 0x0D then [backslash, CHR ''r'']
      else if c = dquote then [backslash, dquote]
      else if c = backslash then [backslash, backslash]
      else if (of_char c :: nat) < 32 then UnicodeEscape c
      else [c])"

definition QuoteJSONString :: "string \<Rightarrow> string" where
  "QuoteJSONString s = [dquote] @ concat (map escape_char s) @ [dquote]"

fun join :: "string \<Rightarrow> string list \<Rightarrow> string" where
  "join sep [] = []"
| "join sep [x] = x"
| "join sep (x # y # ys) = x @ sep @ join sep (y # ys)"

text \<open>
  \<open>SerializeJSONProperty\<close> with its two helpers \<open>SerializeJSONArray\<close> and
  \<open>SerializeJSONObject\<close>; \<open>gap\<close> is the indentation unit and \<open>indent\<close> the current
  indentation. An empty array is \<open>[]\<close> and an empty object \<open>{}\<close>; with a non-empty gap
  every member starts a line of its own, one gap deeper, and the closing bracket returns
  to the indentation of the opening one.
\<close>

fun SerializeJSONProperty :: "string \<Rightarrow> string \<Rightarrow> json \<Rightarrow> string"
  and SerializeJSONArray :: "string \<Rightarrow> string \<Rightarrow> json list \<Rightarrow> string list"
  and SerializeJSONObject :: "string \<Rightarrow> string \<Rightarrow> (string \<times> json) list \<Rightarrow> string list" where
  "SerializeJSONProperty gap indent (JString s) = QuoteJSONString s"
| "SerializeJSONProperty gap indent (JArray vs) =
     (let stepback = indent;
          indent = indent @ gap;
          partial = SerializeJSONArray gap indent vs
      in if partial = [] then ''[]''
         else if gap = [] then ''['' @ join '','' partial @ '']''
         else ''['' @ [newline] @ indent @ join ('','' @ [newline] @ indent) partial
                @ [newline] @ stepback @ '']'')"
| "SerializeJSONProperty gap indent (JObject kvs) =
     (let stepback = indent;
          indent = indent @ gap;
          partial = SerializeJSONObject gap indent kvs
      in if partial = [] then ''{}''
         else if gap = [] then ''{'' @ join '','' partial @ ''}''
         else ''{'' @ [newline] @ indent @ join ('','' @ [newline] @ indent) partial
                @ [newline] @ stepback @ ''}'')"
| "SerializeJSONArray gap indent [] = []"
| "SerializeJSONArray gap indent (v # vs) =
     SerializeJSONProperty gap indent v # SerializeJSONArray gap indent vs"
| "SerializeJSONObject gap indent [] = []"
| "SerializeJSONObject gap indent ((k, v) # kvs) =
     (QuoteJSONString k @ '':'' @ (if gap = [] then [] else '' '')
        @ SerializeJSONProperty gap indent v)
     # SerializeJSONObject gap indent kvs"

definition JSON_stringify :: "json \<Rightarrow> nat \<Rightarrow> string" where
  "JSON_stringify v space = SerializeJSONProperty (replicate (min 10 space) (CHR '' '')) [] v"

section \<open>The gateway (\<open>generatePayoutsFromJson\<close>)\<close>

text \<open>
  How an asynchronous call ends: it returns a value, or it throws. What the callers read
  of a thrown value is its \<open>message\<close> property: \<open>Thrown None\<close> is a value without one,
  and \<open>Nullish\<close> is a thrown \<open>null\<close> or \<open>undefined\<close>, on which reading a property throws
  in turn.
\<close>

datatype thrown = Nullish | Thrown "string option"

datatype 'a completion = Returns 'a | Throws thrown

text \<open>
  \<open>generatePayoutsFromJson\<close> wraps the request to the model and \<open>JSON.parse\<close> of its
  answer in \<open>try\<close>. The argument is how that block ended, which is the environment's
  choice: with the parsed entries (the cast to \<open>PayoutEntry[]\<close> checks nothing), or with an
  exception of the network layer or of the parser. The \<open>catch\<close> clause writes the
  exception to the console and throws a new \<open>Error\<close> with a fixed message, whatever was
  thrown. The result is the console output and the completion the caller sees.
\<close>

definition gateway_failure_message :: string where
  "gateway_failure_message =
     ''Failed to process the image with Gemini API. Please check the console for details.''"

definition generatePayoutsFromJson ::
  "PayoutEntry list completion \<Rightarrow> (string \<times> thrown) list \<times> PayoutEntry list completion" where
  "generatePayoutsFromJson request =
     (case request of
        Returns parsedResponse \<Rightarrow> ([], Returns parsedResponse)
      | Throws error \<Rightarrow>
          ([(''Error generating content from Gemini:'', error)],
           Throws (Thrown (Some gateway_failure_message))))"

section \<open>The component state and its handlers (\<open>App\<close>)\<close>

text \<open>
  The six \<open>useState\<close> cells of \<open>App\<close>. A file is known by its name; \<open>null\<close> is \<open>None\<close>.
\<close>

type_synonym File = string

record app_state =
  imageFiles :: "File list"
  imageUrls :: "string list"
  payouts :: "PayoutEntry list option"
  hrcJson :: "string option"
  isLoading :: bool
  error :: "string option"

definition initial_state :: app_state where
  "initial_state =
     \<lparr>imageFiles = [], imageUrls = [], payouts = None, hrcJson = None,
      isLoading = False, error = None\<rparr>"

text \<open>
  \<open>addFiles\<close> (lines 62 to 72). Each new file comes with the object URL that
  \<open>URL.createObjectURL\<close> made for it.
\<close>

definition addFiles :: "(File \<times> string) list \<Rightarrow> app_state \<Rightarrow> app_state" where
  "addFiles newFiles s =
     s\<lparr>imageFiles := imageFiles s @ map fst newFiles,
       imageUrls := imageUrls s @ map snd newFiles,
       payouts := None,
       hrcJson := None,
       error := None\<rparr>"

text \<open>\<open>handleReset\<close> (lines 157 to 165).\<close>

definition handleReset :: "app_state \<Rightarrow> app_state" where
  "handleReset s =
     s\<lparr>imageFiles := [], imageUrls := [], payouts := None, hrcJson := None,
       error := None, isLoading := False\<rparr>"

text \<open>
  \<open>handleGenerateJson\<close> (lines 104 to 142) in its two synchronous halves, before and
  after \<open>await\<close>. \<open>generate_begin\<close> is lines 110 to 113. \<open>generate_end\<close> is the rest: on a
  returned list the sort, \<open>setPayouts\<close>, the document and \<open>setHrcJson\<close>; on an exception
  the \<open>catch\<close> clause with \<open>err.message || "An unknown error occurred."\<close> (an absent or
  empty message is falsy); then \<open>finally\<close>. The \<open>catch\<close> clause clears nothing. On a thrown
  \<open>null\<close> or \<open>undefined\<close> the expression \<open>err.message\<close> throws inside the \<open>catch\<close> clause,
  so \<open>setError\<close> is not reached and only \<open>finally\<close> runs. With numbers in every entry
  nothing between \<open>await\<close> and \<open>setHrcJson\<close> throws.
\<close>

definition generate_begin :: "app_state \<Rightarrow> app_state" where
  "generate_begin s = s\<lparr>isLoading := True, error := None, payouts := None, hrcJson := None\<rparr>"

definition error_message :: "string option \<Rightarrow> string" where
  "error_message m =
     (case m of
        None \<Rightarrow> ''An unknown error occurred.''
      | Some t \<Rightarrow> if t = [] then ''An unknown error occurred.'' else t)"

definition generate_end :: "PayoutEntry list completion \<Rightarrow> app_state \<Rightarrow> app_state" where
  "generate_end result s =
     (case result of
        Returns extractedPayouts \<Rightarrow>
          s\<lparr>payouts := Some (normalize_payouts extractedPayouts),
            hrcJson := Some (JSON_stringify (hrcJsonData (normalize_payouts extractedPayouts)) 2),
            isLoading := False\<rparr>
      | Throws Nullish \<Rightarrow> s\<lparr>isLoading := False\<rparr>
      | Throws (Thrown message) \<Rightarrow>
          s\<lparr>error := Some (error_message message), isLoading := False\<rparr>)"

text \<open>
  The whole handler when nothing else happens between the click and the answer; \<open>gateway\<close>
  is how the call \<open>generatePayoutsFromJson(imageFiles)\<close> ends.
\<close>

definition handleGenerateJson ::
  "(File list \<Rightarrow> PayoutEntry list completion) \<Rightarrow> app_state \<Rightarrow> app_state" where
  "handleGenerateJson gateway s =
     (if imageFiles s = [] then s\<lparr>error := Some ''Please upload at least one image first.''\<rparr>
      else generate_end (gateway (imageFiles s)) (generate_begin s))"

subsection \<open>The page as an event system\<close>

text \<open>
  Between the click and the answer the page stays live: files can be dropped or pasted
  and Reset can be clicked, while the Generate button is disabled (\<open>isLoading\<close>). Reset and
  Generate are rendered only when there is an image. \<open>pending\<close> holds the calls that have
  not ended, each with the batch its handler read. \<open>origin\<close> is a history variable, not
  program state: the batch from which the displayed payouts, export text and error were
  produced, \<open>None\<close> after they are cleared. A call that ends without writing any of them
  (a thrown \<open>null\<close>) leaves it as it is.
\<close>

record page =
  ui :: app_state
  pending :: "File list list"
  origin :: "File list option"

datatype event =
    AddFiles "(File \<times> string) list"
  | ClickGenerate
  | GatewayEnds nat "PayoutEntry list completion"
  | ClickReset

definition initial_page :: page where
  "initial_page = \<lparr>ui = initial_state, pending = [], origin = None\<rparr>"

fun step :: "event \<Rightarrow> page \<Rightarrow> page option" where
  "step (AddFiles newFiles) p = Some (p\<lparr>ui := addFiles newFiles (ui p), origin := None\<rparr>)"
| "step ClickGenerate p =
     (if imageFiles (ui p) = [] \<or> isLoading (ui p) then None
      else Some (p\<lparr>ui := generate_begin (ui p),
                    pending := pending p @ [imageFiles (ui p)],
                    origin := None\<rparr>))"
| "step (GatewayEnds i result) p =
     (if i < length (pending p)
      then Some (p\<lparr>ui := generate_end result (ui p),
                    pending := take i (pending p) @ drop (Suc i) (pending p),
                    origin := (if result = Throws Nullish then origin p
                               else Some (pending p ! i))\<rparr>)
      else None)"
| "step ClickReset p =
     (if imageFiles (ui p) = [] then None
      else Some (p\<lparr>ui := handleReset (ui p), origin := None\<rparr>))"

fun run :: "event list \<Rightarrow> page \<Rightarrow> page option" where
  "run [] p = Some p"
| "run (e # es) p = (case step e p of None \<Rightarrow> None | Some p' \<Rightarrow> run es p')"

text \<open>Something of a result is on display: a payout list, an export text or an error.\<close>

definition displayed :: "app_state \<Rightarrow> bool" where
  "displayed s = (payouts s \<noteq> None \<or> hrcJson s \<noteq> None \<or> error s \<noteq> None)"

text \<open>What is on display was produced from the batch that is on the page now.\<close>

definition current_results :: "page \<Rightarrow> bool" where
  "current_results p = (if displayed (ui p) then origin p = Some (imageFiles (ui p)) else True)"

text \<open>
  A run is quiet when files are added and Reset is clicked only while no call is
  outstanding.
\<close>

fun quiet :: "event list \<Rightarrow> page \<Rightarrow> bool" where
  "quiet [] p = True"
| "quiet (e # es) p =
     ((case e of AddFiles newFiles \<Rightarrow> pending p = [] | ClickReset \<Rightarrow> pending p = [] | _ \<Rightarrow> True)
      \<and> (case step e p of None \<Rightarrow> False | Some p' \<Rightarrow> quiet es p'))"


text \<open>
  What holds along a quiet run: the display is current, and a call is outstanding exactly
  while \<open>isLoading\<close> is set, for the batch on the page, with nothing on display.
\<close>

definition quiet_invariant :: "page \<Rightarrow> bool" where
  "quiet_invariant p =
     (current_results p \<and>
      (if pending p = [] then \<not> isLoading (ui p)
       else pending p = [imageFiles (ui p)] \<and> isLoading (ui p) \<and> \<not> displayed (ui p)))"

section \<open>Reading the export text\<close>

text \<open>
  The properties of the text are stated with readers that do not share code with the
  writers above. \<open>fixed_point_text f t\<close>: after an optional minus sign, \<open>t\<close> is one
  or more digits, a decimal point, and exactly \<open>f\<close> digits; so no thousands separator,
  currency symbol or exponent occurs. \<open>read_digits\<close> is the number a digit string
  denotes.
\<close>

definition is_digit :: "char \<Rightarrow> bool" where
  "is_digit c = (c \<in> set ''0123456789'')"

definition fixed_point_text :: "nat \<Rightarrow> string \<Rightarrow> bool" where
  "fixed_point_text f t =
     (let body = (if take 1 t = ''-'' then drop 1 t else t);
          whole = take (length body - Suc f) body;
          rest = drop (length body - Suc f) body
      in whole \<noteq> [] \<and> list_all is_digit whole \<and> length rest = Suc f
         \<and> take 1 rest = ''.'' \<and> list_all is_digit (drop 1 rest))"

definition read_digits :: "string \<Rightarrow> nat" where
  "read_digits t = foldl (\<lambda>a c. 10 * a + (of_char c - 48)) 0 t"

text \<open>
  The export text as the spec describes it: pretty-printed line by line, two spaces per
  level, the keys in the order of the literal. \<open>export_lines\<close> is written from that
  description, to be compared with \<open>JSON_stringify\<close> of the document.
\<close>

definition quoted :: "string \<Rightarrow> string" where
  "quoted t = [dquote] @ t @ [dquote]"

definition text_lines :: "string list \<Rightarrow> string" where
  "text_lines ls = join [newline] ls"

definition entry_lines :: "PayoutEntry \<Rightarrow> string \<Rightarrow> string list" where
  "entry_lines p closing =
     [''      {'',
      ''        '' @ quoted ''@position'' @ '': '' @ quoted (Number_toString (position p)) @ '','',
      ''        '' @ quoted ''@prize'' @ '': '' @ quoted (toFixed (prize p) 2),
      closing]"

fun entries_lines :: "PayoutEntry list \<Rightarrow> string list" where
  "entries_lines [] = []"
| "entries_lines [p] = entry_lines p ''      }''"
| "entries_lines (p # q # ps) = entry_lines p ''      },'' @ entries_lines (q # ps)"

definition export_lines :: "PayoutEntry list \<Rightarrow> string list" where
  "export_lines es =
     [''{'',
      ''  '' @ quoted ''CompletedTournament'' @ '': {'',
      ''    '' @ quoted ''@name'' @ '': '' @ quoted ''Custom Tournament Payouts'' @ '','',
      ''    '' @ quoted ''@stake'' @ '': '' @ quoted ''0'' @ '','',
      ''    '' @ quoted ''@rake'' @ '': '' @ quoted ''0'' @ '','',
      ''    '' @ quoted ''@currency'' @ '': '' @ quoted ''USD'' @ '','']
     @ (if es = [] then [''    '' @ quoted ''TournamentEntry'' @ '': []'']
        else [''    '' @ quoted ''TournamentEntry'' @ '': [''] @ entries_lines es @ [''    ]''])
     @ [''  }'', ''}'']"

text \<open>
  The characters a rendered number consists of, and the characters \<open>QuoteJSONString\<close>
  copies unchanged.
\<close>

definition number_char :: "char \<Rightarrow> bool" where
  "number_char c = (c \<in> set ''0123456789-.e+'')"

definition plain_char :: "char \<Rightarrow> bool" where
  "plain_char c = (c \<noteq> dquote \<and> c \<noteq> backslash \<and> 32 \<le> (of_char c :: nat))"

section \<open>Properties of the sort step\<close>

lemma insert_sorted_compareFn: "insert_sorted compareFn x ys = insort_key position x ys"
  by (induction ys) (simp_all add: compareFn_def)

lemma normalize_payouts_sort_key: "normalize_payouts es = sort_key position es"
proof -
  have "insert_sorted compareFn = insort_key position"
    by (intro ext) (rule insert_sorted_compareFn)
  then show ?thesis
    by (simp add: normalize_payouts_def Array_sort_def sort_key_def)
qed

lemma mset_normalize: "mset (normalize_payouts es) = mset es"
  by (simp add: normalize_payouts_sort_key)

lemma sorted_normalize: "sorted (map position (normalize_payouts es))"
  by (simp add: normalize_payouts_sort_key)

lemma normalize_sorted_id: "sorted (map position es) \<Longrightarrow> normalize_payouts es = es"
  by (simp add: normalize_payouts_sort_key sort_key_id_if_sorted)

text \<open>
  The result does not depend on the sorting algorithm the engine uses: a list with the
  same entries that is ascending by position and keeps the input order among entries of
  equal position is the list \<open>normalize_payouts\<close> returns.
\<close>

lemma normalize_unique:
  assumes "mset ys = mset es"
    and "sorted (map position ys)"
    and "\<And>k. k \<in> set ys \<Longrightarrow>
           filter (\<lambda>e. position k = position e) ys = filter (\<lambda>e. position k = position e) es"
  shows "normalize_payouts es = ys"
  unfolding normalize_payouts_sort_key
  by (rule properties_for_sort_key) (use assms in simp_all)

text \<open>
  C1. For every list of payout entries whose positions are pairwise different, the sort
  step returns a list of the same length holding the same multiset of entries (nothing
  added, dropped or changed), strictly ascending by position.
\<close>

theorem normalize_sorts_unique_positions:
  assumes "distinct (map position es)"
  shows "length (normalize_payouts es) = length es
       \<and> mset (normalize_payouts es) = mset es
       \<and> sorted_wrt (<) (map position (normalize_payouts es))"
proof -
  have m: "mset (normalize_payouts es) = mset es"
    by (rule mset_normalize)
  have len: "length (normalize_payouts es) = length es"
    using m by (rule mset_eq_length)
  have "mset (map position (normalize_payouts es)) = mset (map position es)"
    using m by simp
  then have "distinct (map position (normalize_payouts es))"
    using assms by (metis mset_eq_imp_distinct_iff)
  with sorted_normalize [of es] have "sorted_wrt (<) (map position (normalize_payouts es))"
    by (simp add: strict_sorted_iff)
  with m len show ?thesis by simp
qed

theorem normalize_sorts_unique_positions_witness:
  "distinct (map position [\<lparr>position = 2, prize = 50\<rparr>, \<lparr>position = 1, prize = 201 / 2\<rparr>])
   \<and> normalize_payouts [\<lparr>position = 2, prize = 50\<rparr>, \<lparr>position = 1, prize = 201 / 2\<rparr>]
       = [\<lparr>position = 1, prize = 201 / 2\<rparr>, \<lparr>position = 2, prize = 50\<rparr>]
   \<and> length (normalize_payouts [\<lparr>position = 2, prize = 50\<rparr>, \<lparr>position = 1, prize = 201 / 2\<rparr>]) = 2
   \<and> sorted_wrt (<) (map position
         (normalize_payouts [\<lparr>position = 2, prize = 50\<rparr>, \<lparr>position = 1, prize = 201 / 2\<rparr>]))"
  using normalize_sorts_unique_positions
    [of "[\<lparr>position = 2, prize = 50\<rparr>, \<lparr>position = 1, prize = 201 / 2\<rparr>]"]
  by (simp add: normalize_payouts_def Array_sort_def compareFn_def)

text \<open>
  C7. The sort step is idempotent on every list of payout entries, duplicates of a
  position included: sorting a sorted list returns it unchanged.
\<close>

theorem normalize_idempotent: "normalize_payouts (normalize_payouts es) = normalize_payouts es"
  by (rule normalize_sorted_id) (rule sorted_normalize)

lemma normalize_payouts_stable:
  "filter (\<lambda>e. position e = k) (normalize_payouts es) = filter (\<lambda>e. position e = k) es"
  by (simp add: normalize_payouts_sort_key sort_key_stable)

lemma distinct_positions_normalize:
  "distinct (map position (normalize_payouts es)) = distinct (map position es)"
proof -
  have "mset (map position (normalize_payouts es)) = mset (map position es)"
    by (simp add: mset_normalize)
  then show ?thesis by (rule mset_eq_imp_distinct_iff)
qed

section \<open>Properties of the generate action\<close>


text \<open>
  The handler run as a whole, with nothing between the click and the failure: whatever
  the prior state shows is gone and one error message is set.
\<close>

lemma handleGenerateJson_failure:
  assumes "imageFiles s \<noteq> []" and "gateway (imageFiles s) = Throws (Thrown m)"
  shows "payouts (handleGenerateJson gateway s) = None
       \<and> hrcJson (handleGenerateJson gateway s) = None
       \<and> error (handleGenerateJson gateway s) = Some (error_message m)
       \<and> \<not> isLoading (handleGenerateJson gateway s)"
  using assms
  by (simp add: handleGenerateJson_def generate_end_def generate_begin_def)






text \<open>
  C5, as the code has it. A gateway answer with two entries of one position is not
  detected: the run ends without an error, the payout list and the export text are
  produced from all entries. The sort step keeps every entry (same multiset), keeps the
  positions duplicated, and keeps entries of one position in their input order.
\<close>

theorem duplicate_positions_pass_through:
  assumes "\<not> distinct (map position es)"
    and "imageFiles s \<noteq> []"
    and "gateway (imageFiles s) = snd (generatePayoutsFromJson (Returns es))"
  shows "error (handleGenerateJson gateway s) = None
       \<and> payouts (handleGenerateJson gateway s) = Some (normalize_payouts es)
       \<and> hrcJson (handleGenerateJson gateway s)
           = Some (JSON_stringify (hrcJsonData (normalize_payouts es)) 2)
       \<and> mset (normalize_payouts es) = mset es
       \<and> \<not> distinct (map position (normalize_payouts es))
       \<and> (\<forall>k. filter (\<lambda>e. position e = k) (normalize_payouts es)
                = filter (\<lambda>e. position e = k) es)"
  using assms
  by (simp add: handleGenerateJson_def generate_end_def generate_begin_def
      generatePayoutsFromJson_def mset_normalize distinct_positions_normalize
      normalize_payouts_stable)

theorem duplicate_positions_pass_through_witness:
  "\<not> distinct (map position [\<lparr>position = 1, prize = 100\<rparr>, \<lparr>position = 1, prize = 50\<rparr>])
   \<and> payouts (handleGenerateJson
         (\<lambda>files. snd (generatePayoutsFromJson
            (Returns [\<lparr>position = 1, prize = 100\<rparr>, \<lparr>position = 1, prize = 50\<rparr>])))
         (initial_state\<lparr>imageFiles := [''a.png'']\<rparr>))
     = Some (normalize_payouts [\<lparr>position = 1, prize = 100\<rparr>, \<lparr>position = 1, prize = 50\<rparr>])
   \<and> normalize_payouts [\<lparr>position = 1, prize = 100\<rparr>, \<lparr>position = 1, prize = 50\<rparr>]
     = [\<lparr>position = 1, prize = 100\<rparr>, \<lparr>position = 1, prize = 50\<rparr>]"
  using duplicate_positions_pass_through
    [of "[\<lparr>position = 1, prize = 100\<rparr>, \<lparr>position = 1, prize = 50\<rparr>]"
        "initial_state\<lparr>imageFiles := [''a.png'']\<rparr>"
        "\<lambda>files. snd (generatePayoutsFromJson
            (Returns [\<lparr>position = 1, prize = 100\<rparr>, \<lparr>position = 1, prize = 50\<rparr>]))"]
  by (simp add: initial_state_def normalize_payouts_def Array_sort_def compareFn_def)

text \<open>
  C5 as stated fails: for the answer \<open>[{position: 1, prize: 100}, {position: 1, prize: 50}]\<close>
  the run ends with no error, both entries displayed and an export text.
\<close>

theorem duplicate_positions_not_rejected:
  "error (handleGenerateJson
      (\<lambda>files. snd (generatePayoutsFromJson
         (Returns [\<lparr>position = 1, prize = 100\<rparr>, \<lparr>position = 1, prize = 50\<rparr>])))
      (initial_state\<lparr>imageFiles := [''a.png'']\<rparr>)) = None
   \<and> payouts (handleGenerateJson
      (\<lambda>files. snd (generatePayoutsFromJson
         (Returns [\<lparr>position = 1, prize = 100\<rparr>, \<lparr>position = 1, prize = 50\<rparr>])))
      (initial_state\<lparr>imageFiles := [''a.png'']\<rparr>))
     = Some [\<lparr>position = 1, prize = 100\<rparr>, \<lparr>position = 1, prize = 50\<rparr>]
   \<and> hrcJson (handleGenerateJson
      (\<lambda>files. snd (generatePayoutsFromJson
         (Returns [\<lparr>position = 1, prize = 100\<rparr>, \<lparr>position = 1, prize = 50\<rparr>])))
      (initial_state\<lparr>imageFiles := [''a.png'']\<rparr>)) \<noteq> None"
  by (simp add: handleGenerateJson_def generate_end_def generate_begin_def
      generatePayoutsFromJson_def initial_state_def normalize_payouts_def Array_sort_def
      compareFn_def)

text \<open>
  C6, as the code has it. Whatever exception ends the request or the parsing of its
  answer, \<open>generatePayoutsFromJson\<close> writes it to the console and throws an error with the
  fixed message; an answer that parses is passed on unchanged. The generate action then
  shows that fixed message, with no payout list and no export text in place of the data.
\<close>

theorem gateway_failure_message_replaced:
  assumes "imageFiles s \<noteq> []"
  shows "generatePayoutsFromJson (Throws m)
           = ([(''Error generating content from Gemini:'', m)],
              Throws (Thrown (Some gateway_failure_message)))
       \<and> generatePayoutsFromJson (Returns es) = ([], Returns es)
       \<and> error (handleGenerateJson (\<lambda>files. snd (generatePayoutsFromJson (Throws m))) s)
           = Some gateway_failure_message
       \<and> payouts (handleGenerateJson (\<lambda>files. snd (generatePayoutsFromJson (Throws m))) s)
           = None
       \<and> hrcJson (handleGenerateJson (\<lambda>files. snd (generatePayoutsFromJson (Throws m))) s)
           = None"
  using assms
  by (simp add: handleGenerateJson_def generate_end_def generate_begin_def
      generatePayoutsFromJson_def error_message_def gateway_failure_message_def)

theorem gateway_failure_message_replaced_witness:
  "imageFiles (initial_state\<lparr>imageFiles := [''a.png'']\<rparr>) \<noteq> []
   \<and> error (handleGenerateJson
        (\<lambda>files. snd (generatePayoutsFromJson (Throws (Thrown (Some ''Network request failed'')))))
        (initial_state\<lparr>imageFiles := [''a.png'']\<rparr>))
     = Some ''Failed to process the image with Gemini API. Please check the console for details.''"
  using gateway_failure_message_replaced
    [of "initial_state\<lparr>imageFiles := [''a.png'']\<rparr>" "Thrown (Some ''Network request failed'')" "[]"]
  by (simp add: initial_state_def gateway_failure_message_def generatePayoutsFromJson_def)

text \<open>
  C6 as stated fails: a request that ends with the message \<open>Network request failed\<close>
  reaches the caller, and the page, with the fixed message instead.
\<close>

theorem gateway_failure_not_verbatim:
  "snd (generatePayoutsFromJson (Throws (Thrown (Some ''Network request failed''))))
     \<noteq> Throws (Thrown (Some ''Network request failed''))
   \<and> error (handleGenerateJson
        (\<lambda>files. snd (generatePayoutsFromJson (Throws (Thrown (Some ''Network request failed'')))))
        (initial_state\<lparr>imageFiles := [''a.png'']\<rparr>))
     \<noteq> Some ''Network request failed''
   \<and> error (handleGenerateJson
        (\<lambda>files. snd (generatePayoutsFromJson (Throws (Thrown (Some ''Network request failed'')))))
        (initial_state\<lparr>imageFiles := [''a.png'']\<rparr>))
     = Some ''Failed to process the image with Gemini API. Please check the console for details.''"
  by (simp add: handleGenerateJson_def generate_end_def generate_begin_def
      generatePayoutsFromJson_def error_message_def gateway_failure_message_def
      initial_state_def)

text \<open>
  C8. Whatever the entries, the root of the export document has the name
  \<open>Custom Tournament Payouts\<close>, stake \<open>0\<close>, rake \<open>0\<close> and currency \<open>USD\<close>.
\<close>

theorem export_root_fields_constant:
  "Option.bind (json_get ''CompletedTournament'' (hrcJsonData es)) (json_get ''@name'')
     = Some (JString ''Custom Tournament Payouts'')
   \<and> Option.bind (json_get ''CompletedTournament'' (hrcJsonData es)) (json_get ''@stake'')
     = Some (JString ''0'')
   \<and> Option.bind (json_get ''CompletedTournament'' (hrcJsonData es)) (json_get ''@rake'')
     = Some (JString ''0'')
   \<and> Option.bind (json_get ''CompletedTournament'' (hrcJsonData es)) (json_get ''@currency'')
     = Some (JString ''USD'')"
  by (simp add: hrcJsonData_def)

section \<open>Properties of the page\<close>

lemma quiet_invariant_initial: "quiet_invariant initial_page"
  by (simp add: quiet_invariant_def initial_page_def initial_state_def current_results_def
      displayed_def)

lemma quiet_invariant_step:
  assumes "quiet_invariant p"
    and "case e of AddFiles newFiles \<Rightarrow> pending p = [] | ClickReset \<Rightarrow> pending p = [] | _ \<Rightarrow> True"
    and "step e p = Some p'"
  shows "quiet_invariant p'"
proof (cases e)
  case (AddFiles newFiles)
  with assms show ?thesis
    by (auto simp: quiet_invariant_def current_results_def displayed_def addFiles_def)
next
  case ClickGenerate
  with assms show ?thesis
    by (auto simp: quiet_invariant_def current_results_def displayed_def generate_begin_def
        split: if_splits)
next
  case (GatewayEnds i result)
  with assms show ?thesis
    by (cases result)
      (auto simp: quiet_invariant_def current_results_def displayed_def generate_end_def
        split: if_splits thrown.splits)
next
  case ClickReset
  with assms show ?thesis
    by (auto simp: quiet_invariant_def current_results_def displayed_def handleReset_def
        split: if_splits)
qed

lemma quiet_invariant_run:
  "quiet_invariant p \<Longrightarrow> quiet evs p \<Longrightarrow> run evs p = Some p' \<Longrightarrow> quiet_invariant p'"
proof (induction evs arbitrary: p)
  case Nil
  then show ?case by simp
next
  case (Cons e evs)
  from Cons.prems(3) obtain q where q: "step e p = Some q" and r: "run evs q = Some p'"
    by (auto split: option.splits)
  from Cons.prems(2) q have g: "case e of AddFiles newFiles \<Rightarrow> pending p = []
      | ClickReset \<Rightarrow> pending p = [] | _ \<Rightarrow> True" and qq: "quiet evs q"
    by simp_all
  from Cons.prems(1) g q have "quiet_invariant q"
    by (rule quiet_invariant_step)
  then show ?case using qq r by (rule Cons.IH)
qed

text \<open>
  C10, as the code has it. \<open>addFiles\<close> appends the new files and empties the payout
  list, the export text and the error. In every state reached by a run in which files are
  added and Reset is clicked only while no gateway call is outstanding, what is displayed
  was produced from the batch now on the page.
\<close>

theorem quiet_runs_show_current_results:
  assumes "quiet evs initial_page" and "run evs initial_page = Some p"
  shows "current_results p
       \<and> payouts (addFiles newFiles s) = None
       \<and> hrcJson (addFiles newFiles s) = None
       \<and> error (addFiles newFiles s) = None
       \<and> imageFiles (addFiles newFiles s) = imageFiles s @ map fst newFiles"
proof -
  have "quiet_invariant p"
    using quiet_invariant_initial assms by (rule quiet_invariant_run)
  then show ?thesis
    by (simp add: quiet_invariant_def addFiles_def)
qed

theorem quiet_runs_show_current_results_witness:
  "quiet [AddFiles [(''a.png'', ''blob:1'')], ClickGenerate,
          GatewayEnds 0 (Returns [\<lparr>position = 1, prize = 100\<rparr>])] initial_page
   \<and> map_option (\<lambda>p. (imageFiles (ui p), origin p, payouts (ui p), current_results p))
       (run [AddFiles [(''a.png'', ''blob:1'')], ClickGenerate,
             GatewayEnds 0 (Returns [\<lparr>position = 1, prize = 100\<rparr>])] initial_page)
     = Some ([''a.png''], Some [''a.png''], Some [\<lparr>position = 1, prize = 100\<rparr>], True)"
proof -
  let ?evs = "[AddFiles [(''a.png'', ''blob:1'')], ClickGenerate,
          GatewayEnds 0 (Returns [\<lparr>position = 1, prize = 100\<rparr>])]"
  have q: "quiet ?evs initial_page"
    by (simp add: initial_page_def initial_state_def addFiles_def generate_begin_def
        generate_end_def)
  obtain p where r: "run ?evs initial_page = Some p"
    by (simp add: initial_page_def initial_state_def addFiles_def generate_begin_def
        generate_end_def)
  have c: "current_results p"
    using quiet_runs_show_current_results [OF q r] by simp
  have "map_option (\<lambda>p. (imageFiles (ui p), origin p, payouts (ui p))) (run ?evs initial_page)
      = Some ([''a.png''], Some [''a.png''], Some [\<lparr>position = 1, prize = 100\<rparr>])"
    by (simp add: initial_page_def initial_state_def addFiles_def generate_begin_def
        generate_end_def normalize_payouts_def Array_sort_def)
  with q r c show ?thesis by simp
qed

text \<open>
  C10 as stated fails: an image is added, Generate is clicked, a second image is pasted
  while the call is outstanding, and the call returns. The payout list on display comes
  from the first image alone, while the batch on the page holds both.
\<close>

theorem late_answer_shows_stale_results:
  "map_option (\<lambda>p. (imageFiles (ui p), origin p, payouts (ui p), current_results p))
     (run [AddFiles [(''a.png'', ''blob:1'')], ClickGenerate,
           AddFiles [(''b.png'', ''blob:2'')],
           GatewayEnds 0 (Returns [\<lparr>position = 1, prize = 100\<rparr>])] initial_page)
   = Some ([''a.png'', ''b.png''], Some [''a.png''],
           Some [\<lparr>position = 1, prize = 100\<rparr>], False)"
  by (simp add: initial_page_def initial_state_def addFiles_def generate_begin_def
      generate_end_def current_results_def displayed_def normalize_payouts_def
      Array_sort_def)

section \<open>Properties of the rendered numbers\<close>

lemma digit_char_cases:
  "d < 10 \<Longrightarrow> digit_char d \<in> set ''0123456789''"
proof -
  assume "d < 10"
  then have "d = 0 \<or> d = 1 \<or> d = 2 \<or> d = 3 \<or> d = 4 \<or> d = 5 \<or> d = 6
    \<or> d = 7 \<or> d = 8 \<or> d = 9"
    by arith
  then show ?thesis
    by (elim disjE) (simp_all add: digit_char_def char_of_eq_iff)
qed

lemma is_digit_digit_char: "d < 10 \<Longrightarrow> is_digit (digit_char d)"
  by (simp only: is_digit_def digit_char_cases)

lemma of_char_digit_char: "d < 10 \<Longrightarrow> of_char (digit_char d) = 48 + d"
  by (simp add: digit_char_def)

lemma decimal_digits_digits: "list_all is_digit (decimal_digits n)"
proof (induction n rule: decimal_digits.induct)
  case (1 n)
  show ?case
  proof (cases "n < 10")
    case True
    then show ?thesis
      by (subst decimal_digits.simps) (simp add: is_digit_digit_char)
  next
    case False
    with 1 show ?thesis
      by (subst decimal_digits.simps) (simp add: is_digit_digit_char)
  qed
qed

lemma decimal_digits_nonempty: "decimal_digits n \<noteq> []"
  by (subst decimal_digits.simps) simp

lemma read_digits_snoc: "read_digits (t @ [c]) = 10 * read_digits t + (of_char c - 48)"
  by (simp add: read_digits_def)

lemma read_digits_decimal_digits: "read_digits (decimal_digits n) = n"
proof (induction n rule: decimal_digits.induct)
  case (1 n)
  show ?case
  proof (cases "n < 10")
    case True
    then show ?thesis
      by (subst decimal_digits.simps) (simp add: read_digits_def of_char_digit_char)
  next
    case False
    with 1 have "read_digits (decimal_digits (n div 10)) = n div 10" by simp
    with False show ?thesis
      by (subst decimal_digits.simps) (simp add: read_digits_snoc of_char_digit_char)
  qed
qed

lemma read_digits_zeros: "read_digits (replicate k (CHR ''0'') @ t) = read_digits t"
  by (induction k) (simp_all add: read_digits_def)

lemma not_digit_minus: "\<not> is_digit (CHR ''-'')" and not_digit_point: "\<not> is_digit (CHR ''.'')"
  by (simp_all add: is_digit_def)

lemma digit_char_values:
  "digit_char 0 = CHR ''0''" "digit_char 1 = CHR ''1''" "digit_char 2 = CHR ''2''"
  "digit_char 3 = CHR ''3''" "digit_char 4 = CHR ''4''" "digit_char 5 = CHR ''5''"
  "digit_char 6 = CHR ''6''" "digit_char 7 = CHR ''7''" "digit_char 8 = CHR ''8''"
  "digit_char 9 = CHR ''9''" "digit_char (Suc 0) = CHR ''1''"
  by (simp_all add: digit_char_def char_of_eq_iff)

lemma decimal_digits_zero: "decimal_digits 0 = ''0''"
  by (subst decimal_digits.simps) (simp add: digit_char_values)

lemma floor_rat_numeral: "\<lfloor>numeral a / numeral b :: rat\<rfloor> = numeral a div numeral b"
  using floor_divide_of_int_eq [of "numeral a" "numeral b", where ?'a = rat] by simp

lemma decimal_digits_93990: "decimal_digits 93990 = ''93990''"
  by (simp add: decimal_digits.simps digit_char_values)

lemma decimal_digits_123457: "decimal_digits 123457 = ''123457''"
  by (simp add: decimal_digits.simps digit_char_values)

lemma decimal_digits_10050: "decimal_digits 10050 = ''10050''"
  by (simp add: decimal_digits.simps digit_char_values)

lemma fixed_point_text_plain:
  assumes "list_all is_digit w" and "w \<noteq> []" and "list_all is_digit r" and "length r = f"
  shows "fixed_point_text f (w @ ''.'' @ r)"
proof -
  from assms(1,2) have "is_digit (hd w)"
    by (cases w) simp_all
  then have "hd w \<noteq> CHR ''-''"
    using not_digit_minus by auto
  with assms(2) have "take 1 (w @ ''.'' @ r) \<noteq> ''-''"
    by (cases w) simp_all
  with assms show ?thesis
    by (simp add: fixed_point_text_def)
qed

lemma fixed_point_text_minus:
  assumes "list_all is_digit w" and "w \<noteq> []" and "list_all is_digit r" and "length r = f"
  shows "fixed_point_text f (''-'' @ w @ ''.'' @ r)"
  using assms by (simp add: fixed_point_text_def)

lemma list_all_take: "list_all P xs \<Longrightarrow> list_all P (take n xs)"
  by (auto simp: list_all_iff dest: in_set_takeD)

lemma list_all_drop: "list_all P xs \<Longrightarrow> list_all P (drop n xs)"
  by (auto simp: list_all_iff dest: in_set_dropD)

lemma filter_all: "list_all P xs \<Longrightarrow> filter P xs = xs"
  by (simp add: list_all_iff)

text \<open>The digit string that \<open>toFixed\<close> splits: the digits of \<open>n\<close>, padded to \<open>f + 1\<close> places.\<close>

lemma padded_digits:
  fixes f n :: nat
  defines "m \<equiv> (if length (decimal_digits n) \<le> f
                 then replicate (f + 1 - length (decimal_digits n)) (CHR ''0'') @ decimal_digits n
                 else decimal_digits n)"
  shows "list_all is_digit m" and "f < length m" and "read_digits m = n"
proof -
  have z: "is_digit (CHR ''0'')" by (simp add: is_digit_def)
  show "list_all is_digit m"
    using z decimal_digits_digits [of n] by (simp add: m_def list_all_iff)
  show "f < length m"
    by (simp add: m_def)
  show "read_digits m = n"
    by (simp add: m_def read_digits_zeros read_digits_decimal_digits)
qed

lemma toFixed_below:
  assumes "\<bar>x\<bar> < 10 ^ 21"
  shows "\<exists>m. list_all is_digit m \<and> f < length m
           \<and> read_digits m = nat \<lfloor>\<bar>x\<bar> * 10 ^ f + 1 / 2\<rfloor>
           \<and> toFixed x f = (if x < 0 then ''-'' else [])
                @ (if f \<noteq> 0 then take (length m - f) m @ ''.'' @ drop (length m - f) m
                   else decimal_digits (nat \<lfloor>\<bar>x\<bar> * 10 ^ f + 1 / 2\<rfloor>))"
proof -
  define n where "n = nat \<lfloor>\<bar>x\<bar> * 10 ^ f + 1 / 2\<rfloor>"
  define m where "m = (if length (decimal_digits n) \<le> f
                 then replicate (f + 1 - length (decimal_digits n)) (CHR ''0'') @ decimal_digits n
                 else decimal_digits n)"
  have d: "(if n = 0 then ''0'' else decimal_digits n) = decimal_digits n"
    by (simp add: decimal_digits_zero)
  have "toFixed x f = (if x < 0 then ''-'' else [])
                @ (if f \<noteq> 0 then take (length m - f) m @ ''.'' @ drop (length m - f) m
                   else decimal_digits n)"
    using assms unfolding toFixed_def Let_def n_def [symmetric] d m_def [symmetric]
    by simp
  moreover have "list_all is_digit m" "f < length m" "read_digits m = n"
    unfolding m_def by (rule padded_digits)+
  ultimately show ?thesis
    unfolding n_def by blast
qed

text \<open>
  C2, as the code has it. For every payout entry whose prize is below \<open>10 ^ 21\<close> in
  absolute value, the export renders the prize as an optional minus sign, one or more
  digits, a decimal point and exactly two digits, with no other character; the digits
  denote the exact value of the prize times 100, rounded to the nearest integer, a half
  rounded up in magnitude. 939.9 gives \<open>939.90\<close> and 1234.567 gives \<open>1234.57\<close>, for the
  decimal values and for the doubles nearest to them.
\<close>

theorem prize_rendered_with_two_decimals:
  assumes "\<bar>prize p\<bar> < 10 ^ 21"
  shows "json_get ''@prize'' (tournamentEntry p) = Some (JString (toFixed (prize p) 2))
       \<and> fixed_point_text 2 (toFixed (prize p) 2)
       \<and> read_digits (filter is_digit (toFixed (prize p) 2))
           = nat \<lfloor>\<bar>prize p\<bar> * 100 + 1 / 2\<rfloor>
       \<and> (take 1 (toFixed (prize p) 2) = ''-'') = (prize p < 0)
       \<and> toFixed (9399 / 10) 2 = ''939.90''
       \<and> toFixed (1234567 / 1000) 2 = ''1234.57''
       \<and> toFixed (8267447831573299 / 8796093022208) 2 = ''939.90''
       \<and> toFixed (1357420771768533 / 1099511627776) 2 = ''1234.57''"
proof -
  from toFixed_below [OF assms, of 2] obtain m where
    m: "list_all is_digit m" "2 < length m"
      "read_digits m = nat \<lfloor>\<bar>prize p\<bar> * 100 + 1 / 2\<rfloor>"
    and t: "toFixed (prize p) 2 = (if prize p < 0 then ''-'' else [])
        @ take (length m - 2) m @ ''.'' @ drop (length m - 2) m"
    by auto
  define w where "w = take (length m - 2) m"
  define r where "r = drop (length m - 2) m"
  have w: "list_all is_digit w" "w \<noteq> []"
    using m(1,2) by (auto simp: w_def list_all_take)
  have r: "list_all is_digit r" "length r = 2"
    using m(1,2) by (simp_all add: r_def list_all_drop)
  have wr: "w @ r = m"
    by (simp add: w_def r_def)
  have t': "toFixed (prize p) 2 = (if prize p < 0 then ''-'' else []) @ w @ ''.'' @ r"
    using t by (simp add: w_def r_def)
  have shape: "fixed_point_text 2 (toFixed (prize p) 2)"
  proof (cases "prize p < 0")
    case True
    then show ?thesis
      using fixed_point_text_minus [OF w r] by (simp add: t')
  next
    case False
    then show ?thesis
      using fixed_point_text_plain [OF w r] by (simp add: t')
  qed
  have "filter is_digit (toFixed (prize p) 2) = w @ r"
    using w(1) r(1) by (simp add: t' filter_all not_digit_minus not_digit_point)
  then have digits: "read_digits (filter is_digit (toFixed (prize p) 2))
      = nat \<lfloor>\<bar>prize p\<bar> * 100 + 1 / 2\<rfloor>"
    using m(3) wr by simp
  from w have "is_digit (hd w)"
    by (cases w) simp_all
  then have "hd w \<noteq> CHR ''-''"
    using not_digit_minus by auto
  with w(2) have sign: "(take 1 (toFixed (prize p) 2) = ''-'') = (prize p < 0)"
    by (cases w) (simp_all add: t')
  have field: "json_get ''@prize'' (tournamentEntry p) = Some (JString (toFixed (prize p) 2))"
    by (simp add: tournamentEntry_def)
  have e1: "toFixed (9399 / 10) 2 = ''939.90''"
    by (simp add: toFixed_def floor_rat_numeral decimal_digits_93990 Let_def)
  have e2: "toFixed (1234567 / 1000) 2 = ''1234.57''"
    by (simp add: toFixed_def floor_rat_numeral decimal_digits_123457 Let_def)
  have e3: "toFixed (8267447831573299 / 8796093022208) 2 = ''939.90''"
    by (simp add: toFixed_def floor_rat_numeral decimal_digits_93990 Let_def)
  have e4: "toFixed (1357420771768533 / 1099511627776) 2 = ''1234.57''"
    by (simp add: toFixed_def floor_rat_numeral decimal_digits_123457 Let_def)
  from field shape digits sign e1 e2 e3 e4 show ?thesis by blast
qed

theorem prize_rendered_with_two_decimals_witness:
  "\<bar>prize \<lparr>position = 1, prize = 201 / 2\<rparr>\<bar> < 10 ^ 21
   \<and> toFixed (prize \<lparr>position = 1, prize = 201 / 2\<rparr>) 2 = ''100.50''
   \<and> fixed_point_text 2 (toFixed (prize \<lparr>position = 1, prize = 201 / 2\<rparr>) 2)
   \<and> read_digits (filter is_digit (toFixed (prize \<lparr>position = 1, prize = 201 / 2\<rparr>) 2)) = 10050"
proof -
  have h: "\<bar>prize \<lparr>position = 1, prize = 201 / 2\<rparr>\<bar> < 10 ^ 21" by simp
  have v: "toFixed (prize \<lparr>position = 1, prize = 201 / 2\<rparr>) 2 = ''100.50''"
    by (simp add: toFixed_def floor_rat_numeral decimal_digits_10050 Let_def)
  have n: "nat \<lfloor>\<bar>prize \<lparr>position = 1, prize = 201 / 2\<rparr>\<bar> * 100 + 1 / 2\<rfloor> = 10050"
    by (simp add: floor_rat_numeral)
  from prize_rendered_with_two_decimals [OF h] h v n show ?thesis by simp
qed

subsection \<open>The prize \<open>10 ^ 21\<close>\<close>

lemma shortest_digits_found:
  "0 < fuel \<Longrightarrow> digit_candidates x k = c # cs \<Longrightarrow>
   shortest_digits fuel x k = (case closest x k c cs of (s, n) \<Rightarrow> (s, n, k))"
  by (cases fuel) simp_all

lemma decimal_digits_1e21:
  "decimal_digits 1000000000000000000000 = ''1000000000000000000000''"
  by (simp add: decimal_digits.simps digit_char_values)

lemma decimal_digits_small: "decimal_digits 21 = ''21''" "decimal_digits (Suc 0) = ''1''"
  by (simp_all add: decimal_digits.simps digit_char_values)

lemma bit_length_1e21:
  "bit_length 1000000000000000000000 = 70"
  "bit_length 10000000000000000000000 = 74"
  "bit_length 2000000000000000000000 = 71"
  by (simp_all add: bit_length.simps)

lemma round_to_double_1e21:
  "round_to_double 1000000000000000000000 = 1000000000000000000000"
  "round_to_double 10000000000000000000000 = 10000000000000000000000"
  "round_to_double 2000000000000000000000 = 2000000000000000000000"
  by (simp_all add: round_to_double_def bit_length_1e21 Let_def)

lemma digit_candidates_1e21: "digit_candidates 1000000000000000000000 (Suc 0) = [(Suc 0, 22)]"
  by (simp add: digit_candidates_def decimal_digits_1e21 round_to_double_1e21 Let_def)

lemma shortest_digits_1e21:
  "shortest_digits 22 1000000000000000000000 (Suc 0) = (Suc 0, 22, Suc 0)"
  using shortest_digits_found [OF _ digit_candidates_1e21, of 22] by simp

lemma length_digits_1e21: "length (decimal_digits 1000000000000000000000) = 22"
  by (simp add: decimal_digits_1e21)

lemma Number_toString_positive_1e21:
  "Number_toString_positive 1000000000000000000000 = ''1e+21''"
  by (simp add: Number_toString_positive_def length_digits_1e21 decimal_digits_small
      shortest_digits_1e21)

lemma toFixed_1e21: "toFixed (10 ^ 21) 2 = ''1e+21''"
  by (simp add: toFixed_def Number_toString_def Number_toString_positive_1e21)

text \<open>
  C2 as stated fails: the prize \<open>10 ^ 21\<close>, a double, is rendered as \<open>1e+21\<close>, which has
  no decimal point and no two digits after it.
\<close>

theorem prize_at_1e21_not_fixed_point:
  "toFixed (prize \<lparr>position = 1, prize = 10 ^ 21\<rparr>) 2 = ''1e+21''
   \<and> \<not> fixed_point_text 2 (toFixed (prize \<lparr>position = 1, prize = 10 ^ 21\<rparr>) 2)"
proof -
  have v: "toFixed (prize \<lparr>position = 1, prize = 10 ^ 21\<rparr>) 2 = ''1e+21''"
    using toFixed_1e21 by simp
  have "\<not> fixed_point_text 2 ''1e+21''"
    by (simp add: fixed_point_text_def is_digit_def)
  with v show ?thesis by simp
qed

section \<open>Properties of the export text\<close>

lemma escape_plain_char: "plain_char c \<Longrightarrow> escape_char c = [c]"
  by (auto simp: plain_char_def escape_char_def)

lemma QuoteJSONString_plain: "list_all plain_char t \<Longrightarrow> QuoteJSONString t = quoted t"
proof -
  assume "list_all plain_char t"
  then have "concat (map escape_char t) = t"
    by (induction t) (simp_all add: escape_plain_char)
  then show ?thesis
    by (simp add: QuoteJSONString_def quoted_def)
qed

lemma number_char_plain: "number_char c \<Longrightarrow> plain_char c"
  by (auto simp: number_char_def plain_char_def dquote_def backslash_def)

lemma is_digit_number_char: "is_digit c \<Longrightarrow> number_char c"
  by (auto simp: is_digit_def number_char_def)

lemma list_all_weaken: "list_all P xs \<Longrightarrow> (\<And>x. P x \<Longrightarrow> Q x) \<Longrightarrow> list_all Q xs"
  by (auto simp: list_all_iff)

lemma decimal_digits_number: "list_all number_char (decimal_digits n)"
  using decimal_digits_digits [of n] is_digit_number_char by (rule list_all_weaken)

lemma Number_toString_positive_number: "list_all number_char (Number_toString_positive x)"
  by (simp add: Number_toString_positive_def decimal_digits_number list_all_take list_all_drop
      number_char_def [of "CHR ''0''"] number_char_def [of "CHR ''e''"]
      number_char_def [of "CHR ''+''"] number_char_def [of "CHR ''.''"]
      list_all_iff [of _ "replicate _ _"]
      split: prod.splits)

lemma Number_toString_number: "list_all number_char (Number_toString x)"
  by (simp add: Number_toString_def Number_toString_positive_number number_char_def)


lemma toFixed_number: "list_all number_char (toFixed x f)"
proof -
  have c: "number_char (CHR ''0'')" "number_char (CHR ''-'')" "number_char (CHR ''.'')"
    by (simp_all add: number_char_def)
  have z: "list_all number_char (replicate k (CHR ''0''))" for k
    using c(1) by (simp add: list_all_iff)
  show ?thesis
    unfolding toFixed_def Let_def
    using c z
    by (simp add: Number_toString_number decimal_digits_number list_all_take list_all_drop)
qed

lemma quote_key:
  "QuoteJSONString ''CompletedTournament'' = quoted ''CompletedTournament''"
  "QuoteJSONString ''@name'' = quoted ''@name''"
  "QuoteJSONString ''@stake'' = quoted ''@stake''"
  "QuoteJSONString ''@rake'' = quoted ''@rake''"
  "QuoteJSONString ''@currency'' = quoted ''@currency''"
  "QuoteJSONString ''TournamentEntry'' = quoted ''TournamentEntry''"
  "QuoteJSONString ''@position'' = quoted ''@position''"
  "QuoteJSONString ''@prize'' = quoted ''@prize''"
  "QuoteJSONString ''Custom Tournament Payouts'' = quoted ''Custom Tournament Payouts''"
  "QuoteJSONString ''0'' = quoted ''0''"
  "QuoteJSONString ''USD'' = quoted ''USD''"
  by (rule QuoteJSONString_plain, simp add: plain_char_def dquote_def backslash_def)+

lemma quote_number:
  "QuoteJSONString (Number_toString x) = quoted (Number_toString x)"
  "QuoteJSONString (toFixed y f) = quoted (toFixed y f)"
  by (rule QuoteJSONString_plain, rule list_all_weaken, rule Number_toString_number,
      erule number_char_plain)
    (rule QuoteJSONString_plain, rule list_all_weaken, rule toFixed_number,
      erule number_char_plain)

lemma join_Cons: "ys \<noteq> [] \<Longrightarrow> join sep (x # ys) = x @ sep @ join sep ys"
  by (cases ys) simp_all

lemma join_append:
  "xs \<noteq> [] \<Longrightarrow> ys \<noteq> [] \<Longrightarrow> join sep (xs @ ys) = join sep xs @ sep @ join sep ys"
proof (induction xs)
  case Nil
  then show ?case by simp
next
  case (Cons x xs)
  show ?case
  proof (cases xs)
    case Nil
    with Cons.prems show ?thesis by (simp add: join_Cons)
  next
    case (Cons z zs)
    with Cons.IH Cons.prems show ?thesis by (simp add: join_Cons)
  qed
qed

lemma entries_lines_nonempty: "es \<noteq> [] \<Longrightarrow> entries_lines es \<noteq> []"
  by (induction es rule: entries_lines.induct) (simp_all add: entry_lines_def)

lemma entry_text:
  "''      '' @ SerializeJSONProperty ''  '' ''      '' (tournamentEntry p) @ closing
   = text_lines (entry_lines p (''      }'' @ closing))"
  by (simp add: tournamentEntry_def entry_lines_def text_lines_def quote_key quote_number)

lemma SerializeJSONArray_map:
  "SerializeJSONArray gap indent (map f es)
   = map (\<lambda>e. SerializeJSONProperty gap indent (f e)) es"
  by (induction es) simp_all

lemma entries_text:
  "es \<noteq> [] \<Longrightarrow>
   ''      '' @ join ('','' @ [newline] @ ''      '')
       (map (\<lambda>e. SerializeJSONProperty ''  '' ''      '' (tournamentEntry e)) es)
   = text_lines (entries_lines es)"
proof (induction es rule: entries_lines.induct)
  case 1
  then show ?case by simp
next
  case (2 p)
  show ?case
    using entry_text [of p "[]"] by simp
next
  case (3 p q ps)
  have "entries_lines (q # ps) \<noteq> []"
    by (rule entries_lines_nonempty) simp
  then have "text_lines (entries_lines (p # q # ps))
      = text_lines (entry_lines p ''      },'') @ [newline] @ text_lines (entries_lines (q # ps))"
    by (simp add: text_lines_def join_Cons entry_lines_def)
  also have "\<dots> = ''      '' @ SerializeJSONProperty ''  '' ''      '' (tournamentEntry p)
      @ '','' @ [newline] @ text_lines (entries_lines (q # ps))"
    using entry_text [of p "'',''"] by simp
  finally show ?case
    using 3 by simp
qed


lemma two_spaces: "replicate 2 (CHR '' '') = ''  ''"
  by (simp add: numeral_2_eq_2)

lemma entries_array_text:
  assumes "es \<noteq> []"
  shows "SerializeJSONProperty ''  '' ''    '' (JArray (map tournamentEntry es))
       = ''['' @ [newline] @ text_lines (entries_lines es) @ [newline] @ ''    ]''"
proof -
  have "SerializeJSONProperty ''  '' ''    '' (JArray (map tournamentEntry es))
      = ''['' @ [newline]
        @ (''      '' @ join ('','' @ [newline] @ ''      '')
             (map (\<lambda>e. SerializeJSONProperty ''  '' ''      '' (tournamentEntry e)) es))
        @ [newline] @ ''    ]''"
    using assms by (simp add: SerializeJSONArray_map Let_def)
  then show ?thesis
    by (simp only: entries_text [OF assms])
qed

lemma export_text: "JSON_stringify (hrcJsonData es) 2 = text_lines (export_lines es)"
proof (cases "es = []")
  case True
  then show ?thesis
    by (simp add: JSON_stringify_def two_spaces hrcJsonData_def export_lines_def
        text_lines_def quote_key Let_def)
next
  case False
  then have n: "entries_lines es \<noteq> []"
    by (rule entries_lines_nonempty)
  show ?thesis
    using False n
    by (simp add: JSON_stringify_def two_spaces hrcJsonData_def export_lines_def
        text_lines_def quote_key entries_array_text join_Cons join_append Let_def
        del: SerializeJSONProperty.simps(2))
qed


lemma digit_candidates_small:
  "digit_candidates (Suc 0) (Suc 0) = [(Suc 0, Suc 0)]"
  "digit_candidates 2 (Suc 0) = [(2, Suc 0)]"
  by (simp_all add: digit_candidates_def decimal_digits.simps digit_char_values
      round_to_double_def Let_def)

lemma Number_toString_small: "Number_toString 1 = ''1''" "Number_toString 2 = ''2''"
proof -
  have l: "length (decimal_digits (Suc 0)) = Suc 0" "length (decimal_digits 2) = Suc 0"
    by (simp_all add: decimal_digits.simps)
  have d: "decimal_digits (Suc 0) = ''1''" "decimal_digits 2 = ''2''"
    by (simp_all add: decimal_digits.simps digit_char_values)
  show "Number_toString 1 = ''1''"
    by (simp add: Number_toString_def Number_toString_positive_def l digit_candidates_small d)
  show "Number_toString 2 = ''2''"
    by (simp add: Number_toString_def Number_toString_positive_def l digit_candidates_small d)
qed

lemma decimal_digits_5000: "decimal_digits 5000 = ''5000''"
  by (simp add: decimal_digits.simps digit_char_values)

lemma toFixed_examples: "toFixed 50 2 = ''50.00''" "toFixed (201 / 2) 2 = ''100.50''"
  by (simp_all add: toFixed_def floor_rat_numeral decimal_digits_5000 decimal_digits_10050
      Let_def)

lemma normalize_payouts_example:
  "normalize_payouts [\<lparr>position = 2, prize = 50\<rparr>, \<lparr>position = 1, prize = 201 / 2\<rparr>]
   = [\<lparr>position = 1, prize = 201 / 2\<rparr>, \<lparr>position = 2, prize = 50\<rparr>]"
  by (simp add: normalize_payouts_def Array_sort_def compareFn_def)

text \<open>
  C3. The export text is a function of the entries alone: it is the pretty-printed text
  \<open>export_lines\<close> describes (one member per line, two spaces per level, keys in the order
  of the literal). So two generate actions that receive the same entries produce the same
  text whatever the states they start from, and a further one on the sorted entries
  produces it again.
\<close>

theorem export_text_deterministic:
  "JSON_stringify (hrcJsonData es) 2 = text_lines (export_lines es)
   \<and> hrcJson (generate_end (Returns es) s1)
       = Some (text_lines (export_lines (normalize_payouts es)))
   \<and> hrcJson (generate_end (Returns es) s2) = hrcJson (generate_end (Returns es) s1)
   \<and> hrcJson (generate_end (Returns (normalize_payouts es)) (generate_end (Returns es) s1))
       = hrcJson (generate_end (Returns es) s1)"
proof -
  have t: "JSON_stringify (hrcJsonData xs) 2 = text_lines (export_lines xs)" for xs
    by (rule export_text)
  have i: "normalize_payouts (normalize_payouts es) = normalize_payouts es"
    by (rule normalize_sorted_id) (rule sorted_normalize)
  show ?thesis
    by (simp add: t i generate_end_def)
qed

theorem export_text_deterministic_witness:
  "hrcJson (generate_end
      (Returns [\<lparr>position = 2, prize = 50\<rparr>, \<lparr>position = 1, prize = 201 / 2\<rparr>])
      initial_state)
   = Some (text_lines
      [''{'',
       ''  '' @ quoted ''CompletedTournament'' @ '': {'',
       ''    '' @ quoted ''@name'' @ '': '' @ quoted ''Custom Tournament Payouts'' @ '','',
       ''    '' @ quoted ''@stake'' @ '': '' @ quoted ''0'' @ '','',
       ''    '' @ quoted ''@rake'' @ '': '' @ quoted ''0'' @ '','',
       ''    '' @ quoted ''@currency'' @ '': '' @ quoted ''USD'' @ '','',
       ''    '' @ quoted ''TournamentEntry'' @ '': ['',
       ''      {'',
       ''        '' @ quoted ''@position'' @ '': '' @ quoted ''1'' @ '','',
       ''        '' @ quoted ''@prize'' @ '': '' @ quoted ''100.50'',
       ''      },'',
       ''      {'',
       ''        '' @ quoted ''@position'' @ '': '' @ quoted ''2'' @ '','',
       ''        '' @ quoted ''@prize'' @ '': '' @ quoted ''50.00'',
       ''      }'',
       ''    ]'',
       ''  }'',
       ''}''])"
  using export_text_deterministic
    [of "[\<lparr>position = 2, prize = 50\<rparr>, \<lparr>position = 1, prize = 201 / 2\<rparr>]"
        initial_state initial_state]
  by (simp add: normalize_payouts_example export_lines_def entry_lines_def
      Number_toString_small toFixed_examples)

text \<open>
  C9. For the empty list the sort step returns the empty list, the export document has
  an empty entry sequence, and a generate action that receives it ends without an error,
  with the empty payout list and the export text on display.
\<close>

theorem empty_list_exports_empty_document:
  assumes "imageFiles s \<noteq> []" and "gateway (imageFiles s) = Returns []"
  shows "normalize_payouts [] = []
       \<and> Option.bind (json_get ''CompletedTournament'' (hrcJsonData (normalize_payouts [])))
           (json_get ''TournamentEntry'') = Some (JArray [])
       \<and> payouts (handleGenerateJson gateway s) = Some []
       \<and> error (handleGenerateJson gateway s) = None
       \<and> \<not> isLoading (handleGenerateJson gateway s)
       \<and> hrcJson (handleGenerateJson gateway s)
           = Some (text_lines
               [''{'',
                ''  '' @ quoted ''CompletedTournament'' @ '': {'',
                ''    '' @ quoted ''@name'' @ '': '' @ quoted ''Custom Tournament Payouts'' @ '','',
                ''    '' @ quoted ''@stake'' @ '': '' @ quoted ''0'' @ '','',
                ''    '' @ quoted ''@rake'' @ '': '' @ quoted ''0'' @ '','',
                ''    '' @ quoted ''@currency'' @ '': '' @ quoted ''USD'' @ '','',
                ''    '' @ quoted ''TournamentEntry'' @ '': []'',
                ''  }'',
                ''}''])"
proof -
  have n: "normalize_payouts [] = []"
    by (simp add: normalize_payouts_def Array_sort_def)
  have t: "JSON_stringify (hrcJsonData []) 2 = text_lines (export_lines [])"
    by (rule export_text)
  have f: "Option.bind (json_get ''CompletedTournament'' (hrcJsonData []))
      (json_get ''TournamentEntry'') = Some (JArray [])"
    by (simp add: hrcJsonData_def)
  have r: "handleGenerateJson gateway s
      = s\<lparr>isLoading := False, error := None, payouts := Some [],
          hrcJson := Some (text_lines (export_lines []))\<rparr>"
    using assms
    by (simp add: n t handleGenerateJson_def generate_begin_def generate_end_def)
  show ?thesis
    by (simp add: n f r export_lines_def)
qed

theorem empty_list_exports_empty_document_witness:
  "imageFiles (initial_state\<lparr>imageFiles := [''a.png'']\<rparr>) \<noteq> []
   \<and> payouts (handleGenerateJson (\<lambda>files. Returns []) (initial_state\<lparr>imageFiles := [''a.png'']\<rparr>))
       = Some []
   \<and> error (handleGenerateJson (\<lambda>files. Returns []) (initial_state\<lparr>imageFiles := [''a.png'']\<rparr>))
       = None
   \<and> hrcJson (handleGenerateJson (\<lambda>files. Returns []) (initial_state\<lparr>imageFiles := [''a.png'']\<rparr>))
       \<noteq> None"
  using empty_list_exports_empty_document
    [of "initial_state\<lparr>imageFiles := [''a.png'']\<rparr>" "\<lambda>files. Returns []"]
  by (simp add: initial_state_def)

end
